theory Spec2Isabelle
  imports Complex_Main "HOL-Library.Sublist"
begin

section \<open>Strings\<close>

text \<open>
  Python strings are modelled as \<^typ>\<open>string\<close>: a character is a code point below
  256. On these, \<^verbatim>\<open>str.strip()\<close> removes the code points 9 to 13, 28 to 32, 133 and
  160, and \<^verbatim>\<open>str.lower()\<close> adds 32 to the code points 65 to 90, 192 to 214 and 216 to
  222 and leaves the others as they are.
\<close>

definition is_space :: "char \<Rightarrow> bool" where
  "is_space c =
     (let n = (of_char c :: nat)
      in (9 \<le> n \<and> n \<le> 13) \<or> (28 \<le> n \<and> n \<le> 32) \<or> n = 133 \<or> n = 160)"

definition lower_char :: "char \<Rightarrow> char" where
  "lower_char c =
     (let n = (of_char c :: nat)
      in if (65 \<le> n \<and> n \<le> 90) \<or> (192 \<le> n \<and> n \<le> 214) \<or> (216 \<le> n \<and> n \<le> 222)
         then char_of (n + 32) else c)"

definition lower :: "string \<Rightarrow> string" where
  "lower s = map lower_char s"

definition strip :: "string \<Rightarrow> string" where
  "strip s = rev (dropWhile is_space (rev (dropWhile is_space s)))"

definition endswith :: "string \<Rightarrow> string \<Rightarrow> bool" where
  "endswith s suf = (length suf \<le> length s \<and> drop (length s - length suf) s = suf)"

section \<open>County names (app/utils/data\_utils.py)\<close>

text \<open>
  The argument of both functions is \<^verbatim>\<open>Optional[str]\<close>: \<open>None\<close> stands for
  Python's \<^verbatim>\<open>None\<close> and for a pandas missing value.
\<close>

definition normalize_county_name :: "string option \<Rightarrow> string option" where
  "normalize_county_name name =
     (case name of
        None \<Rightarrow> None
      | Some s \<Rightarrow>
          if s = [] then None
          else let normalized = strip s in
            if normalized = [] then None
            else if endswith (lower normalized) '' county''
              then Some (strip (take (length normalized - 7) normalized))
              else Some normalized)"

definition add_county_suffix :: "string option \<Rightarrow> string option" where
  "add_county_suffix name =
     (case name of
        None \<Rightarrow> None
      | Some s \<Rightarrow>
          if s = [] then None
          else let formatted = strip s in
            if formatted = [] then None
            else if \<not> endswith (lower formatted) '' county''
              then Some (formatted @ '' County'')
              else Some formatted)"


text \<open>A string is trimmed when \<^verbatim>\<open>strip\<close> has nothing to remove from it.\<close>

definition trimmed :: "string \<Rightarrow> bool" where
  "trimmed t = (t = [] \<or> (\<not> is_space (hd t) \<and> \<not> is_space (last t)))"


text \<open>
  Equality of two results up to the letter case of the seven-character suffix token:
  same length, same characters before the token, tokens equal after lower-casing.
\<close>

definition same_up_to_suffix_case :: "string option \<Rightarrow> string option \<Rightarrow> bool" where
  "same_up_to_suffix_case x y =
     (case (x, y) of
        (None, None) \<Rightarrow> True
      | (Some a, Some b) \<Rightarrow>
          length a = length b \<and> take (length a - 7) a = take (length b - 7) b \<and>
          lower (drop (length a - 7) a) = lower (drop (length b - 7) b)
      | _ \<Rightarrow> False)"


section \<open>Tables\<close>

text \<open>
  A pandas DataFrame is a header of column names and a list of rows, each row holding one
  cell per column. A cell is a missing value (\<^verbatim>\<open>NaN\<close>, \<^verbatim>\<open>None\<close>, \<^verbatim>\<open>pd.NA\<close>), a
  string or a number. Numbers are reals: the code only compares, counts and averages them.
\<close>

datatype cell = NA | Str string | Num real

type_synonym row = "cell list"

record table =
  cols :: "string list"
  rows :: "row list"

datatype py_error = KeyError | TypeError

text \<open>
  The library functions the code calls and this development leaves open: \<^verbatim>\<open>str()\<close> of
  a number, the parser behind \<^verbatim>\<open>pd.to_numeric\<close> on a string (\<open>None\<close> when the
  string is not numeric), and the calendar year of \<^verbatim>\<open>datetime.now()\<close>.
\<close>

record runtime =
  py_str :: "real \<Rightarrow> string"
  parse_numeric :: "string \<Rightarrow> real option"
  now_year :: int

fun index_of :: "'a \<Rightarrow> 'a list \<Rightarrow> nat option" where
  "index_of x [] = None"
| "index_of x (y # ys) = (if x = y then Some 0 else map_option Suc (index_of x ys))"

definition cell_at :: "table \<Rightarrow> string \<Rightarrow> row \<Rightarrow> cell" where
  \<comment> \<open>the cell of row \<open>r\<close> in column \<open>c\<close>; every use is behind a check that \<open>c\<close> is a column\<close>
  "cell_at t c r =
     (case index_of c (cols t) of
        Some i \<Rightarrow> if i < length r then r ! i else NA
      | None \<Rightarrow> NA)"

definition select_rows :: "(row \<Rightarrow> bool) \<Rightarrow> table \<Rightarrow> table" where
  \<comment> \<open>\<^verbatim>\<open>df[mask]\<close>: a new table with the rows where the mask is true\<close>
  "select_rows p t = t\<lparr>rows := filter p (rows t)\<rparr>"

definition set_column :: "string \<Rightarrow> (row \<Rightarrow> cell) \<Rightarrow> table \<Rightarrow> table" where
  \<comment> \<open>\<^verbatim>\<open>df[c] = values\<close>: overwrites column \<open>c\<close>, or appends it when it is new\<close>
  "set_column c f t =
     (case index_of c (cols t) of
        Some i \<Rightarrow> t\<lparr>rows := map (\<lambda>r. r[i := f r]) (rows t)\<rparr>
      | None \<Rightarrow> t\<lparr>cols := cols t @ [c], rows := map (\<lambda>r. r @ [f r]) (rows t)\<rparr>)"

definition remove_nth :: "nat \<Rightarrow> 'a list \<Rightarrow> 'a list" where
  "remove_nth i xs = take i xs @ drop (Suc i) xs"

definition drop_column :: "string \<Rightarrow> table \<Rightarrow> table" where
  \<comment> \<open>\<^verbatim>\<open>df.drop(columns=[c])\<close>; the code only drops the column it has just set\<close>
  "drop_column c t =
     (case index_of c (cols t) of
        Some i \<Rightarrow> t\<lparr>cols := remove_nth i (cols t), rows := map (remove_nth i) (rows t)\<rparr>
      | None \<Rightarrow> t)"

text \<open>
  \<^verbatim>\<open>normalize_county_name\<close> applied to a table cell: \<^verbatim>\<open>pd.isna\<close> catches a missing
  value, a number goes through \<^verbatim>\<open>str(name)\<close>, and the number zero is falsy.
\<close>

definition normalize_county_cell :: "runtime \<Rightarrow> cell \<Rightarrow> string option" where
  "normalize_county_cell rt c =
     (case c of
        NA \<Rightarrow> None
      | Str s \<Rightarrow> normalize_county_name (Some s)
      | Num x \<Rightarrow> if x = 0 then None else normalize_county_name (Some (py_str rt x)))"

definition cell_of_name :: "string option \<Rightarrow> cell" where
  "cell_of_name n = (case n of None \<Rightarrow> NA | Some s \<Rightarrow> Str s)"

definition name_of_cell :: "cell \<Rightarrow> string option" where
  "name_of_cell c = (case c of Str s \<Rightarrow> Some s | _ \<Rightarrow> None)"

section \<open>The store\<close>

text \<open>
  DataFrames are objects: a variable holds a reference, \<^verbatim>\<open>df.copy()\<close>, \<^verbatim>\<open>df[mask]\<close>
  and \<^verbatim>\<open>df.drop(...)\<close> make a new object, and \<^verbatim>\<open>df[c] = values\<close> changes the object
  in place. The store is the list of the objects made so far; a reference is an index.
\<close>

type_synonym ref = nat
type_synonym heap = "table list"

definition alloc :: "heap \<Rightarrow> table \<Rightarrow> ref \<times> heap" where
  "alloc h t = (length h, h @ [t])"

section \<open>Filters (app/utils/filters.py)\<close>

text \<open>
  The filter dictionary. \<open>None\<close> is an absent key; for \<open>years\<close> it also stands for a
  falsy value. The values have the types of the docstrings and of the sidebar: a pair of
  years, a list of license types, a list of county names, a county name.
\<close>

record filters =
  years :: "(int \<times> int) option"
  license_types :: "string list option"
  counties :: "string list option"
  county :: "string option"

definition year_between :: "int \<Rightarrow> int \<Rightarrow> cell \<Rightarrow> py_error + bool" where
  \<comment> \<open>\<^verbatim>\<open>(Year >= start_year) & (Year <= end_year)\<close>; a string compared with an integer raises\<close>
  "year_between s e c =
     (case c of
        Num x \<Rightarrow> Inr (of_int s \<le> x \<and> x \<le> of_int e)
      | NA \<Rightarrow> Inr False
      | Str _ \<Rightarrow> Inl TypeError)"

fun collect :: "('e + 'a) list \<Rightarrow> 'e + 'a list" where
  "collect [] = Inr []"
| "collect (x # xs) =
     (case x of
        Inl e \<Rightarrow> Inl e
      | Inr v \<Rightarrow> (case collect xs of Inl e \<Rightarrow> Inl e | Inr vs \<Rightarrow> Inr (v # vs)))"

definition select_mask :: "bool list \<Rightarrow> table \<Rightarrow> table" where
  "select_mask m t = t\<lparr>rows := map snd (filter fst (zip m (rows t)))\<rparr>"

definition year_step :: "heap \<Rightarrow> ref \<Rightarrow> filters \<Rightarrow> (py_error + ref) \<times> heap" where
  \<comment> \<open>the block under \<^verbatim>\<open># Apply year filter\<close>, the same in the three appliers\<close>
  "year_step h filtered_df f =
     (case years f of
        None \<Rightarrow> (Inr filtered_df, h)
      | Some (start_year, end_year) \<Rightarrow>
          if ''Year'' \<in> set (cols (h ! filtered_df)) then
            (case collect (map (\<lambda>r. year_between start_year end_year
                                  (cell_at (h ! filtered_df) ''Year'' r))
                             (rows (h ! filtered_df))) of
               Inl e \<Rightarrow> (Inl e, h)
             | Inr m \<Rightarrow> (case alloc h (select_mask m (h ! filtered_df)) of
                           (r, h') \<Rightarrow> (Inr r, h')))
          else (Inr filtered_df, h))"

definition truthy :: "'a list option \<Rightarrow> bool" where
  \<comment> \<open>\<^verbatim>\<open>"k" in filters and filters["k"]\<close> for a list value\<close>
  "truthy v = (case v of None \<Rightarrow> False | Some xs \<Rightarrow> xs \<noteq> [])"

definition license_step :: "heap \<Rightarrow> ref \<Rightarrow> filters \<Rightarrow> ref \<times> heap" where
  \<comment> \<open>the block under \<^verbatim>\<open># Apply license type filter\<close>\<close>
  "license_step h filtered_df f =
     (if truthy (license_types f) \<and> ''License Designation'' \<in> set (cols (h ! filtered_df))
      then alloc h (select_rows
             (\<lambda>r. cell_at (h ! filtered_df) ''License Designation'' r
                     \<in> Str ` set (the (license_types f)))
             (h ! filtered_df))
      else (filtered_df, h))"

definition counties_to_filter :: "filters \<Rightarrow> string list option" where
  \<comment> \<open>lines 53 to 60 of apply\_dispensary\_filters, 100 to 107 of apply\_sentiment\_filters\<close>
  "counties_to_filter f =
     (if truthy (counties f) then
        (if ''All Counties'' \<notin> set (the (counties f)) then counties f else None)
      else (case county f of
              Some c \<Rightarrow> if c \<noteq> ''All Counties'' then Some [c] else None
            | None \<Rightarrow> None))"

definition county_step :: "runtime \<Rightarrow> heap \<Rightarrow> ref \<Rightarrow> string list option \<Rightarrow> ref \<times> heap" where
  \<comment> \<open>the block under \<^verbatim>\<open>if counties_to_filter and "County" in filtered_df.columns\<close>\<close>
  "county_step rt h filtered_df ctf =
     (if truthy ctf \<and> ''County'' \<in> set (cols (h ! filtered_df)) then
        (let normalized_filter_counties = map (\<lambda>c. normalize_county_name (Some c)) (the ctf);
             h1 = h[filtered_df := set_column ''_normalized_county''
                     (\<lambda>r. cell_of_name (normalize_county_cell rt (cell_at (h ! filtered_df) ''County'' r)))
                     (h ! filtered_df)];
             (fd2, h2) = alloc h1 (select_rows
                     (\<lambda>r. name_of_cell (cell_at (h1 ! filtered_df) ''_normalized_county'' r)
                             \<in> set normalized_filter_counties)
                     (h1 ! filtered_df))
         in alloc h2 (drop_column ''_normalized_county'' (h2 ! fd2)))
      else (filtered_df, h))"

definition apply_dispensary_filters ::
  "runtime \<Rightarrow> heap \<Rightarrow> ref \<Rightarrow> filters \<Rightarrow> (py_error + ref) \<times> heap" where
  "apply_dispensary_filters rt h dispensaries f =
     (case alloc h (h ! dispensaries) of
        (filtered_df, h0) \<Rightarrow>
          (case year_step h0 filtered_df f of
             (Inl e, h1) \<Rightarrow> (Inl e, h1)
           | (Inr fd1, h1) \<Rightarrow>
               (case license_step h1 fd1 f of
                  (fd2, h2) \<Rightarrow>
                    (case county_step rt h2 fd2 (counties_to_filter f) of
                       (fd3, h3) \<Rightarrow> (Inr fd3, h3)))))"

definition apply_sentiment_filters ::
  "runtime \<Rightarrow> heap \<Rightarrow> ref \<Rightarrow> filters \<Rightarrow> (py_error + ref) \<times> heap" where
  "apply_sentiment_filters rt h sentiment f =
     (case alloc h (h ! sentiment) of
        (filtered_df, h0) \<Rightarrow>
          (case year_step h0 filtered_df f of
             (Inl e, h1) \<Rightarrow> (Inl e, h1)
           | (Inr fd1, h1) \<Rightarrow>
               (case county_step rt h1 fd1 (counties_to_filter f) of
                  (fd3, h3) \<Rightarrow> (Inr fd3, h3))))"

definition legacy_county_step :: "runtime \<Rightarrow> heap \<Rightarrow> ref \<Rightarrow> filters \<Rightarrow> ref \<times> heap" where
  \<comment> \<open>lines 147 to 153 of apply\_density\_filters: only the \<^verbatim>\<open>"county"\<close> key is read;
      \<^verbatim>\<open>==\<close> against a missing value is false on both sides\<close>
  "legacy_county_step rt h filtered_df f =
     (case county f of
        None \<Rightarrow> (filtered_df, h)
      | Some c \<Rightarrow>
          if c \<noteq> ''All Counties'' \<and> ''County'' \<in> set (cols (h ! filtered_df)) then
            (let filter_county = normalize_county_name (Some c);
                 h1 = h[filtered_df := set_column ''_normalized_county''
                         (\<lambda>r. cell_of_name (normalize_county_cell rt (cell_at (h ! filtered_df) ''County'' r)))
                         (h ! filtered_df)];
                 (fd2, h2) = alloc h1 (select_rows
                         (\<lambda>r. case (name_of_cell (cell_at (h1 ! filtered_df) ''_normalized_county'' r),
                                     filter_county) of
                                 (Some a, Some b) \<Rightarrow> a = b
                               | _ \<Rightarrow> False)
                         (h1 ! filtered_df))
             in alloc h2 (drop_column ''_normalized_county'' (h2 ! fd2)))
          else (filtered_df, h))"

definition apply_density_filters ::
  "runtime \<Rightarrow> heap \<Rightarrow> ref \<Rightarrow> filters \<Rightarrow> (py_error + ref) \<times> heap" where
  "apply_density_filters rt h density f =
     (case alloc h (h ! density) of
        (filtered_df, h0) \<Rightarrow>
          (case year_step h0 filtered_df f of
             (Inl e, h1) \<Rightarrow> (Inl e, h1)
           | (Inr fd1, h1) \<Rightarrow>
               (case legacy_county_step rt h1 fd1 f of
                  (fd3, h3) \<Rightarrow> (Inr fd3, h3))))"

definition has_active_filters :: "filters \<Rightarrow> bool" where
  "has_active_filters f =
     (if (case years f of
            Some (start_year, end_year) \<Rightarrow> start_year \<noteq> 2018 \<or> end_year \<noteq> 2024
          | None \<Rightarrow> False)
      then True
      else if (if truthy (counties f) then ''All Counties'' \<notin> set (the (counties f))
               else (case county f of Some c \<Rightarrow> c \<noteq> ''All Counties'' | None \<Rightarrow> False))
      then True
      else if truthy (license_types f) \<and> length (the (license_types f)) < 3
      then True
      else False)"

text \<open>The table an evaluation returns, read from the store it leaves.\<close>

definition result_table :: "(py_error + ref) \<times> heap \<Rightarrow> py_error + table" where
  "result_table res = (case res of (Inl e, h) \<Rightarrow> Inl e | (Inr r, h) \<Rightarrow> Inr (h ! r))"

section \<open>Validation (app/utils/data\_validation.py)\<close>

text \<open>
  The message of a result is one of the templates of the module, kept with its arguments.
  \<open>Column_not_found d\<close> is \<^verbatim>\<open>f"Column '{display_name}' not found in dataset"\<close>;
  the two threshold templates carry \<open>allow_zero\<close>, which selects the threshold text, and
  the two range templates carry the bounds.
\<close>

datatype message =
    Column_not_found string
  | Not_threshold nat string bool
  | All_threshold string bool
  | Outside_range nat string "real option" "real option"
  | Within_range string "real option" "real option"

definition not_found_text :: "string \<Rightarrow> string" where
  "not_found_text display_name =
     ''Column '' @ [CHR 0x27] @ display_name @ [CHR 0x27] @ '' not found in dataset''"

record validation_result =
  is_valid :: bool
  column :: string
  message :: message
  invalid_count :: nat
  invalid_values :: "cell list"

definition to_numeric :: "runtime \<Rightarrow> cell \<Rightarrow> real option" where
  \<comment> \<open>\<^verbatim>\<open>pd.to_numeric(..., errors='coerce')\<close> on one value; \<open>None\<close> is NaN\<close>
  "to_numeric rt c =
     (case c of NA \<Rightarrow> None | Num x \<Rightarrow> Some x | Str s \<Rightarrow> parse_numeric rt s)"

definition display_or :: "string option \<Rightarrow> string \<Rightarrow> string" where
  \<comment> \<open>\<^verbatim>\<open>column_display_name or column\<close>\<close>
  "display_or column_display_name dflt =
     (case column_display_name of
        None \<Rightarrow> dflt
      | Some n \<Rightarrow> if n = [] then dflt else n)"

definition validate_positive_numeric ::
  "runtime \<Rightarrow> table \<Rightarrow> string \<Rightarrow> bool \<Rightarrow> string option \<Rightarrow> validation_result" where
  "validate_positive_numeric rt df col allow_zero column_display_name =
     (let display_name = display_or column_display_name col in
      if col \<notin> set (cols df) then
        \<lparr>is_valid = False, column = col, message = Column_not_found display_name,
         invalid_count = 0, invalid_values = []\<rparr>
      else
        let invalid_mask = (\<lambda>r. case to_numeric rt (cell_at df col r) of
                                   None \<Rightarrow> False
                                 | Some x \<Rightarrow> if allow_zero then x < 0 else x \<le> 0);
            n_invalid = length (filter invalid_mask (rows df))
        in if n_invalid > 0 then
             \<lparr>is_valid = False, column = col,
              message = Not_threshold n_invalid display_name allow_zero,
              invalid_count = n_invalid,
              invalid_values = take 5 (map (cell_at df col) (filter invalid_mask (rows df)))\<rparr>
           else
             \<lparr>is_valid = True, column = col, message = All_threshold display_name allow_zero,
              invalid_count = 0, invalid_values = []\<rparr>)"

definition validate_range ::
  "runtime \<Rightarrow> table \<Rightarrow> string \<Rightarrow> real option \<Rightarrow> real option \<Rightarrow> string option \<Rightarrow> validation_result" where
  "validate_range rt df col min_value max_value column_display_name =
     (let display_name = display_or column_display_name col in
      if col \<notin> set (cols df) then
        \<lparr>is_valid = False, column = col, message = Column_not_found display_name,
         invalid_count = 0, invalid_values = []\<rparr>
      else
        let invalid_mask = (\<lambda>r. case to_numeric rt (cell_at df col r) of
                                   None \<Rightarrow> False
                                 | Some x \<Rightarrow>
                                     (case min_value of None \<Rightarrow> False | Some lo \<Rightarrow> x < lo) \<or>
                                     (case max_value of None \<Rightarrow> False | Some hi \<Rightarrow> x > hi));
            n_invalid = length (filter invalid_mask (rows df))
        in if n_invalid > 0 then
             \<lparr>is_valid = False, column = col,
              message = Outside_range n_invalid display_name min_value max_value,
              invalid_count = n_invalid,
              invalid_values = take 5 (map (cell_at df col) (filter invalid_mask (rows df)))\<rparr>
           else
             \<lparr>is_valid = True, column = col,
              message = Within_range display_name min_value max_value,
              invalid_count = 0, invalid_values = []\<rparr>)"

definition validate_year_column ::
  "runtime \<Rightarrow> table \<Rightarrow> string \<Rightarrow> int \<Rightarrow> int option \<Rightarrow> validation_result" where
  "validate_year_column rt df col min_year max_year =
     (let max_year' = (case max_year of None \<Rightarrow> now_year rt + 1 | Some y \<Rightarrow> y)
      in validate_range rt df col (Some (of_int min_year)) (Some (of_int max_year')) (Some ''Year''))"

definition validate_sentiment_score ::
  "runtime \<Rightarrow> table \<Rightarrow> string \<Rightarrow> real \<Rightarrow> real \<Rightarrow> validation_result" where
  "validate_sentiment_score rt df col min_score max_score =
     validate_range rt df col (Some min_score) (Some max_score) (Some ''Sentiment Score'')"

definition validate_percentage ::
  "runtime \<Rightarrow> table \<Rightarrow> string \<Rightarrow> string option \<Rightarrow> validation_result" where
  "validate_percentage rt df col column_display_name =
     validate_range rt df col (Some 0) (Some 100)
       (Some (display_or column_display_name (col @ '' (percentage)'')))"

text \<open>
  A validation function called on a stored table: it reads the object and writes nothing,
  so the store it leaves is the store it found.
\<close>

definition validate_positive_numeric_at ::
  "runtime \<Rightarrow> heap \<Rightarrow> ref \<Rightarrow> string \<Rightarrow> bool \<Rightarrow> string option \<Rightarrow> validation_result \<times> heap" where
  "validate_positive_numeric_at rt h df col allow_zero column_display_name =
     (validate_positive_numeric rt (h ! df) col allow_zero column_display_name, h)"

definition validate_range_at ::
  "runtime \<Rightarrow> heap \<Rightarrow> ref \<Rightarrow> string \<Rightarrow> real option \<Rightarrow> real option \<Rightarrow> string option
     \<Rightarrow> validation_result \<times> heap" where
  "validate_range_at rt h df col min_value max_value column_display_name =
     (validate_range rt (h ! df) col min_value max_value column_display_name, h)"

section \<open>Cached calculations (app/utils/cached\_calculations.py)\<close>








fun numbers :: "cell list \<Rightarrow> py_error + real list" where
  \<comment> \<open>the values of a numeric column without its missing cells. \<^verbatim>\<open>Year\<close> and
      \<^verbatim>\<open>Dispensary_PerCapita\<close> are numeric columns of the data; on a string the model
      gives a type error, and the properties below are stated for numeric columns\<close>
  "numbers [] = Inr []"
| "numbers (NA # cs) = numbers cs"
| "numbers (Num x # cs) = (case numbers cs of Inl e \<Rightarrow> Inl e | Inr xs \<Rightarrow> Inr (x # xs))"
| "numbers (Str s # cs) = Inl TypeError"



definition mean :: "real list \<Rightarrow> real option" where
  \<comment> \<open>\<^verbatim>\<open>Series.mean()\<close> of the values that are not missing; \<open>None\<close> is NaN\<close>
  "mean xs = (if xs = [] then None else Some (sum_list xs / real (length xs)))"

definition region_average :: "table \<Rightarrow> string list \<Rightarrow> py_error + real" where
  \<comment> \<open>lines 107 to 118 of calculate\_regional\_density, for one region\<close>
  "region_average density_df counties' =
     (let counties_formatted = map (\<lambda>c. if \<not> endswith c '' County'' then c @ '' County'' else c)
                                  counties'
      in if ''County'' \<notin> set (cols density_df) then Inl KeyError
         else let selected = select_rows
                      (\<lambda>r. cell_at density_df ''County'' r \<in> Str ` set counties_formatted)
                      density_df
              in if ''Dispensary_PerCapita'' \<notin> set (cols selected) then Inl KeyError
                 else (case numbers (map (cell_at selected ''Dispensary_PerCapita'') (rows selected)) of
                         Inl e \<Rightarrow> Inl e
                       | Inr xs \<Rightarrow>
                           (case mean xs of
                              None \<Rightarrow> Inr 0
                            | Some avg_density \<Rightarrow> Inr avg_density)))"

fun calculate_regional_density ::
  "table \<Rightarrow> (string \<times> string list) list \<Rightarrow> py_error + (string \<times> real) list" where
  "calculate_regional_density density_df [] = Inr []"
| "calculate_regional_density density_df ((region, counties') # rest) =
     (case region_average density_df counties' of
        Inl e \<Rightarrow> Inl e
      | Inr avg \<Rightarrow>
          (case calculate_regional_density density_df rest of
             Inl e \<Rightarrow> Inl e
           | Inr out \<Rightarrow> Inr ((region, avg) # out)))"

section \<open>Notions used to state the properties\<close>

text \<open>The county selection in effect: the list when it is non-empty, else the scalar.\<close>

definition effective_sentinel :: "filters \<Rightarrow> bool" where
  "effective_sentinel f =
     (if truthy (counties f) then ''All Counties'' \<in> set (the (counties f))
      else county f = Some ''All Counties'')"


text \<open>
  The defaults as C4 words them: the year range is (2018, 2024), the county selection is
  the sentinel or a list containing it, and there are three license types.
\<close>

definition at_declared_defaults :: "filters \<Rightarrow> bool" where
  "at_declared_defaults f =
     (years f = Some (2018, 2024) \<and>
      (county f = Some ''All Counties'' \<or>
       (case counties f of Some cs \<Rightarrow> ''All Counties'' \<in> set cs | None \<Rightarrow> False)) \<and>
      (case license_types f of Some ts \<Rightarrow> length ts = 3 | None \<Rightarrow> False))"

text \<open>The dimensions as the code judges them: an absent or empty field restricts nothing.\<close>

definition year_unrestricted :: "filters \<Rightarrow> bool" where
  "year_unrestricted f = (years f = None \<or> years f = Some (2018, 2024))"

definition county_unrestricted :: "filters \<Rightarrow> bool" where
  "county_unrestricted f =
     (if truthy (counties f) then ''All Counties'' \<in> set (the (counties f))
      else (county f = None \<or> county f = Some ''All Counties''))"

definition license_unrestricted :: "filters \<Rightarrow> bool" where
  "license_unrestricted f =
     (case license_types f of None \<Rightarrow> True | Some ts \<Rightarrow> ts = [] \<or> 3 \<le> length ts)"


text \<open>Every row has one cell per column.\<close>

definition rows_ok :: "table \<Rightarrow> bool" where
  "rows_ok t = list_all (\<lambda>r. length r = length (cols t)) (rows t)"


text \<open>Example values for the closed theorems.\<close>

definition rt_example :: runtime where
  "rt_example = \<lparr>py_str = (\<lambda>_. ''0''), parse_numeric = (\<lambda>_. None), now_year = 2025\<rparr>"

definition density_example :: table where
  "density_example =
     \<lparr>cols = [''County'', ''Year'', ''Dispensary_PerCapita''],
      rows = [[Str ''Los Angeles County'', Num 2020, Num 5],
              [Str ''San Diego County'', Num 2021, Num 4]]\<rparr>"

text \<open>The table without the rows whose cell in column \<open>c\<close> fails numeric coercion.\<close>

definition coercible_rows :: "runtime \<Rightarrow> string \<Rightarrow> table \<Rightarrow> table" where
  "coercible_rows rt c t = t\<lparr>rows := filter (\<lambda>r. to_numeric rt (cell_at t c r) \<noteq> None) (rows t)\<rparr>"


definition population_example :: table where
  "population_example =
     \<lparr>cols = [''Population''], rows = [[Str ''n/a''], [Num (- 5)], [Num 3], [NA]]\<rparr>"

definition uncoercible_example :: table where
  "uncoercible_example = \<lparr>cols = [''Population''], rows = [[Str ''n/a''], [NA]]\<rparr>"


definition numeric_column :: "string \<Rightarrow> table \<Rightarrow> bool" where
  "numeric_column c t = list_all (\<lambda>r. case cell_at t c r of Str _ \<Rightarrow> False | _ \<Rightarrow> True) (rows t)"


definition region_matches :: "table \<Rightarrow> string list \<Rightarrow> row \<Rightarrow> bool" where
  "region_matches t cs r =
     (cell_at t ''County'' r \<in>
        Str ` set (map (\<lambda>c. if \<not> endswith c '' County'' then c @ '' County'' else c) cs))"



section \<open>Properties of the county-name functions\<close>


lemma last_dropWhile_eq: "dropWhile P xs \<noteq> [] \<Longrightarrow> last (dropWhile P xs) = last xs"
  by (induction xs) (auto split: if_splits)

lemma trimmed_strip: "trimmed (strip s)"
proof -
  define a where "a = dropWhile is_space s"
  define b where "b = dropWhile is_space (rev a)"
  have s: "strip s = rev b" by (simp add: strip_def a_def b_def)
  show ?thesis
  proof (cases "b = []")
    case True then show ?thesis by (simp add: s trimmed_def)
  next
    case False
    then have hb: "\<not> is_space (hd b)" unfolding b_def by (metis hd_dropWhile)
    from False have ra: "rev a \<noteq> []" unfolding b_def by auto
    then have "a \<noteq> []" by simp
    then have ha: "\<not> is_space (hd a)" unfolding a_def by (metis hd_dropWhile)
    from False have "last b = last (rev a)" unfolding b_def by (rule last_dropWhile_eq)
    also have "\<dots> = hd a" using \<open>a \<noteq> []\<close> by (simp add: last_rev)
    finally have lb: "\<not> is_space (last b)" using ha by simp
    show ?thesis using False hb lb by (simp add: s trimmed_def hd_rev last_rev)
  qed
qed

lemma strip_trimmed: "trimmed t \<Longrightarrow> strip t = t"
proof (cases "t = []")
  case True then show ?thesis by (simp add: strip_def)
next
  case False
  assume "trimmed t"
  with False have h: "\<not> is_space (hd t)" and l: "\<not> is_space (last t)" by (auto simp: trimmed_def)
  from h False have 1: "dropWhile is_space t = t" by (cases t) auto
  from l False have 2: "dropWhile is_space (rev t) = rev t" by (cases "rev t") (auto simp: hd_rev dest: arg_cong[where f=hd])
  show ?thesis by (simp add: strip_def 1 2)
qed

lemma strip_nonempty: "t \<noteq> [] \<Longrightarrow> \<not> is_space (hd t) \<Longrightarrow> strip t \<noteq> []"
proof -
  assume t: "t \<noteq> []" and h: "\<not> is_space (hd t)"
  then have 1: "dropWhile is_space t = t" by (cases t) auto
  from t have "hd t \<in> set (rev t)" by simp
  with h have "dropWhile is_space (rev t) \<noteq> []" by (auto simp: dropWhile_eq_Nil_conv)
  then show ?thesis by (simp add: strip_def 1)
qed

lemma length_strip: "length (strip t) \<le> length t"
  unfolding strip_def
  by (metis length_dropWhile_le length_rev order_trans)

lemma lower_append: "lower (a @ b) = lower a @ lower b" by (simp add: lower_def)
lemma length_lower: "length (lower a) = length a" by (simp add: lower_def)
lemma lower_County: "lower '' County'' = '' county''" by code_simp
lemma y_not_space: "\<not> is_space CHR ''y''" by code_simp
lemma sp_space: "is_space CHR '' ''" by code_simp


lemma is_space_lower_char: "is_space (lower_char c) = is_space c"
  by (auto simp: is_space_def lower_char_def Let_def)

lemma normalize_Some:
  "normalize_county_name (Some s) =
     (if strip s = [] then None
      else if endswith (lower (strip s)) '' county''
        then Some (strip (take (length (strip s) - 7) (strip s)))
        else Some (strip s))"
  by (auto simp: normalize_county_name_def Let_def strip_def)

lemma suffix_Some:
  "add_county_suffix (Some s) =
     (if strip s = [] then None
      else if endswith (lower (strip s)) '' county''
        then Some (strip s)
        else Some (strip s @ '' County''))"
  by (auto simp: add_county_suffix_def Let_def strip_def)

lemma hd_trimmed: "trimmed t \<Longrightarrow> t \<noteq> [] \<Longrightarrow> \<not> is_space (hd t)"
  by (simp add: trimmed_def)

lemma token_length:
  assumes "t \<noteq> []" "\<not> is_space (hd t)" "endswith (lower t) '' county''"
  shows "8 \<le> length t"
proof (rule ccontr)
  assume "\<not> 8 \<le> length t"
  moreover from assms(3) have "7 \<le> length t" by (simp add: endswith_def lower_def)
  ultimately have l: "length t = 7" by simp
  with assms(3) have "lower t = '' county''" by (simp add: endswith_def lower_def)
  then have "hd (lower t) = CHR '' ''" by simp
  then have "lower_char (hd t) = CHR '' ''" using assms(1) by (simp add: lower_def hd_map)
  then have "is_space (lower_char (hd t))" by (simp add: sp_space)
  with assms(2) show False by (simp add: is_space_lower_char)
qed

lemma stem_nonempty:
  assumes "t \<noteq> []" "\<not> is_space (hd t)" "endswith (lower t) '' county''"
  shows "strip (take (length t - 7) t) \<noteq> []"
proof -
  have "8 \<le> length t" using assms by (rule token_length)
  then have 1: "take (length t - 7) t \<noteq> []" by auto
  then have "hd (take (length t - 7) t) = hd t" by (cases t) (auto simp: take_Cons')
  with 1 assms(2) show ?thesis by (simp add: strip_nonempty)
qed

lemma normalize_result:
  assumes "normalize_county_name x = Some u"
  shows "u \<noteq> [] \<and> trimmed u"
proof (cases x)
  case None with assms show ?thesis by (simp add: normalize_county_name_def)
next
  case (Some s)
  let ?t = "strip s"
  from assms Some have ne: "?t \<noteq> []" by (auto simp: normalize_Some split: if_splits)
  have tr: "trimmed ?t" by (rule trimmed_strip)
  show ?thesis
  proof (cases "endswith (lower ?t) '' county''")
    case True
    with assms Some ne have u: "u = strip (take (length ?t - 7) ?t)" by (simp add: normalize_Some)
    have "u \<noteq> []" unfolding u using ne hd_trimmed[OF tr ne] True by (rule stem_nonempty)
    then show ?thesis by (simp add: u trimmed_strip)
  next
    case False
    with assms Some ne have "u = ?t" by (simp add: normalize_Some)
    with ne tr show ?thesis by simp
  qed
qed

lemma suffixed_trimmed:
  assumes "t \<noteq> []" "trimmed t"
  shows "strip (t @ '' County'') = t @ '' County''"
proof -
  have "hd (t @ '' County'') = hd t" using assms(1) by simp
  moreover have "last (t @ '' County'') = CHR ''y''" by simp
  ultimately have "trimmed (t @ '' County'')"
    using assms by (simp add: trimmed_def y_not_space del: hd_append2 last_appendR last_append)
  then show ?thesis by (rule strip_trimmed)
qed

lemma endswith_suffixed: "endswith (lower (t @ '' County'')) '' county''"
  by (simp add: endswith_def lower_append lower_County length_lower)

lemma suffix_idem: "add_county_suffix (add_county_suffix x) = add_county_suffix x"
proof (cases x)
  case None then show ?thesis by (simp add: add_county_suffix_def)
next
  case (Some s)
  let ?t = "strip s"
  show ?thesis
  proof (cases "?t = []")
    case True then show ?thesis by (simp add: Some suffix_Some add_county_suffix_def)
  next
    case ne: False
    have tr: "trimmed ?t" by (rule trimmed_strip)
    show ?thesis
    proof (cases "endswith (lower ?t) '' county''")
      case True
      then show ?thesis using ne by (simp add: Some suffix_Some strip_trimmed[OF tr])
    next
      case False
      then show ?thesis using ne
        by (simp add: Some suffix_Some suffixed_trimmed[OF ne tr] endswith_suffixed)
    qed
  qed
qed

lemma normalize_twice:
  "(normalize_county_name (normalize_county_name x) = normalize_county_name x) =
     (\<forall>u. normalize_county_name x = Some u \<longrightarrow> \<not> endswith (lower u) '' county'')"
proof (cases "normalize_county_name x")
  case None then show ?thesis by (simp add: normalize_county_name_def)
next
  case (Some u)
  then have ne: "u \<noteq> []" and tr: "trimmed u" using normalize_result by auto
  have su: "strip u = u" using tr by (rule strip_trimmed)
  show ?thesis
  proof (cases "endswith (lower u) '' county''")
    case True
    have "length (strip (take (length u - 7) u)) \<le> length (take (length u - 7) u)"
      by (rule length_strip)
    also have "\<dots> < length u" using ne by (cases u) auto
    finally have "strip (take (length u - 7) u) \<noteq> u" by auto
    then show ?thesis using True ne by (simp add: Some normalize_Some su)
  next
    case False
    then show ?thesis using ne by (simp add: Some normalize_Some su)
  qed
qed

lemma normalize_suffix: "normalize_county_name (add_county_suffix x) = normalize_county_name x"
proof (cases x)
  case None then show ?thesis by (simp add: add_county_suffix_def)
next
  case (Some s)
  let ?t = "strip s"
  show ?thesis
  proof (cases "?t = []")
    case True then show ?thesis by (simp add: Some suffix_Some normalize_Some normalize_county_name_def)
  next
    case ne: False
    have tr: "trimmed ?t" by (rule trimmed_strip)
    show ?thesis
    proof (cases "endswith (lower ?t) '' county''")
      case True
      then show ?thesis using ne by (simp add: Some suffix_Some normalize_Some strip_trimmed[OF tr])
    next
      case False
      then show ?thesis using ne
        by (simp add: Some suffix_Some normalize_Some suffixed_trimmed[OF ne tr] endswith_suffixed strip_trimmed[OF tr])
    qed
  qed
qed


lemma lower_drop: "lower (drop n t) = drop n (lower t)"
  by (simp add: lower_def drop_map)

lemma suffix_normalize_no_token:
  assumes "\<not> endswith (lower (strip s)) '' county''"
  shows "add_county_suffix (normalize_county_name (Some s)) = add_county_suffix (Some s)"
proof (cases "strip s = []")
  case True
  then have "normalize_county_name (Some s) = None" "add_county_suffix (Some s) = None"
    by (simp_all add: normalize_Some suffix_Some)
  then show ?thesis by (simp add: add_county_suffix_def)
next
  case False
  with assms show ?thesis
    by (simp add: normalize_Some suffix_Some strip_trimmed[OF trimmed_strip])
qed

lemma suffix_normalize_one_token:
  assumes ne: "strip s \<noteq> []"
    and tok: "endswith (lower (strip s)) '' county''"
    and sp: "\<not> is_space (last (take (length (strip s) - 7) (strip s)))"
    and one: "\<not> endswith (lower (take (length (strip s) - 7) (strip s))) '' county''"
  shows "same_up_to_suffix_case (add_county_suffix (normalize_county_name (Some s)))
           (add_county_suffix (Some s))"
proof -
  let ?t = "strip s"
  let ?stem = "take (length ?t - 7) ?t"
  have tr: "trimmed ?t" by (rule trimmed_strip)
  have h: "\<not> is_space (hd ?t)" using tr ne by (rule hd_trimmed)
  have len: "8 \<le> length ?t" using ne h tok by (rule token_length)
  then have sne: "?stem \<noteq> []" by auto
  then have "hd ?stem = hd ?t" by (cases ?t) (auto simp: take_Cons')
  with h sp sne have "trimmed ?stem" by (simp add: trimmed_def)
  then have ss: "strip ?stem = ?stem" by (rule strip_trimmed)
  have n: "normalize_county_name (Some s) = Some ?stem"
    using ne tok by (simp add: normalize_Some ss)
  have a: "add_county_suffix (Some ?stem) = Some (?stem @ '' County'')"
    using sne one by (simp add: suffix_Some ss)
  have b: "add_county_suffix (Some s) = Some ?t"
    using ne tok by (simp add: suffix_Some)
  have l: "length (?stem @ '' County'') = length ?t" using len by simp
  have d: "lower (drop (length ?t - 7) ?t) = '' county''"
    using tok by (simp add: lower_drop endswith_def length_lower eval_nat_numeral)
  show ?thesis
    unfolding n a b same_up_to_suffix_case_def
    using l d len by (simp add: lower_County)
qed

text \<open>
  C2 (amended). \<^verbatim>\<open>add_county_suffix\<close> is idempotent on every input.
  \<^verbatim>\<open>normalize_county_name\<close> removes one trailing suffix token per call, so a second
  call returns the same value exactly when the first result does not itself still end
  with the token \<^verbatim>\<open>" county"\<close> (compared case-insensitively).
\<close>

theorem suffix_idempotent_normalize_one_token_per_call:
  "add_county_suffix (add_county_suffix x) = add_county_suffix x \<and>
   ((normalize_county_name (normalize_county_name x) = normalize_county_name x) =
      (\<forall>u. normalize_county_name x = Some u \<longrightarrow> \<not> endswith (lower u) '' county''))"
  using suffix_idem normalize_twice by blast

theorem suffix_idempotent_normalize_one_token_per_call_witness:
  "add_county_suffix (add_county_suffix (Some ''Napa'')) = add_county_suffix (Some ''Napa'') \<and>
   normalize_county_name (normalize_county_name (Some ''Napa County'')) =
     normalize_county_name (Some ''Napa County'')"
proof -
  have n: "normalize_county_name (Some ''Napa County'') = Some ''Napa''" by code_simp
  have e: "\<not> endswith (lower ''Napa'') '' county''" by code_simp
  show ?thesis
    using suffix_idempotent_normalize_one_token_per_call [of "Some ''Napa''"]
      suffix_idempotent_normalize_one_token_per_call [of "Some ''Napa County''"] n e
    by simp
qed

text \<open>
  C2 as stated fails for \<^verbatim>\<open>normalize_county_name\<close>: on \<^verbatim>\<open>"A County County"\<close> the
  first call gives \<^verbatim>\<open>"A County"\<close> and the second gives \<^verbatim>\<open>"A"\<close>.
\<close>

theorem normalize_county_name_not_idempotent:
  "normalize_county_name (normalize_county_name (Some ''A County County'')) \<noteq>
     normalize_county_name (Some ''A County County'')"
  by code_simp

text \<open>
  C3 (amended). For every input, normalising after suffixing equals normalising. When the
  trimmed input carries no suffix token, suffixing after normalising equals suffixing.
  When it carries exactly one suffix token that follows the name directly (the character
  before the token is not whitespace, and what is before the token does not end with the
  token again), suffixing after normalising equals suffixing up to the letter case of
  that token.
\<close>

theorem normalize_suffix_roundtrip:
  "normalize_county_name (add_county_suffix x) = normalize_county_name x \<and>
   (\<not> endswith (lower (strip s)) '' county'' \<longrightarrow>
      add_county_suffix (normalize_county_name (Some s)) = add_county_suffix (Some s)) \<and>
   (endswith (lower (strip s)) '' county'' \<and>
    \<not> is_space (last (take (length (strip s) - 7) (strip s))) \<and>
    \<not> endswith (lower (take (length (strip s) - 7) (strip s))) '' county'' \<longrightarrow>
      same_up_to_suffix_case (add_county_suffix (normalize_county_name (Some s)))
        (add_county_suffix (Some s)))"
proof -
  have ne: "endswith (lower (strip s)) '' county'' \<Longrightarrow> strip s \<noteq> []"
    by (auto simp: endswith_def lower_def)
  show ?thesis
    using normalize_suffix [of x] suffix_normalize_no_token [of s]
      suffix_normalize_one_token [of s] ne by blast
qed

theorem normalize_suffix_roundtrip_witness:
  "normalize_county_name (add_county_suffix (Some ''Los Angeles'')) =
     normalize_county_name (Some ''Los Angeles'') \<and>
   \<not> endswith (lower (strip '' Napa '')) '' county'' \<and>
   add_county_suffix (normalize_county_name (Some '' Napa '')) = add_county_suffix (Some '' Napa '') \<and>
   endswith (lower (strip '' Los Angeles COUNTY '')) '' county'' \<and>
   same_up_to_suffix_case
     (add_county_suffix (normalize_county_name (Some '' Los Angeles COUNTY '')))
     (add_county_suffix (Some '' Los Angeles COUNTY ''))"
proof -
  have 0: "\<not> endswith (lower (strip '' Napa '')) '' county''" by code_simp
  have 1: "endswith (lower (strip '' Los Angeles COUNTY '')) '' county''" by code_simp
  have 2: "\<not> is_space (last (take (length (strip '' Los Angeles COUNTY '') - 7)
              (strip '' Los Angeles COUNTY '')))" by code_simp
  have 3: "\<not> endswith (lower (take (length (strip '' Los Angeles COUNTY '') - 7)
              (strip '' Los Angeles COUNTY ''))) '' county''" by code_simp
  show ?thesis
    using normalize_suffix_roundtrip [of "Some ''Los Angeles''" "'' Los Angeles COUNTY ''"]
      normalize_suffix_roundtrip [of "Some ''Los Angeles''" "'' Napa ''"] 0 1 2 3
    by blast
qed

text \<open>
  C3 as stated fails on its second equation: with two blanks before the token, or with
  the token twice, the two sides differ in more than letter case.
\<close>

theorem suffix_normalize_differs_beyond_case:
  "\<not> same_up_to_suffix_case
       (add_county_suffix (normalize_county_name (Some ''Napa  County'')))
       (add_county_suffix (Some ''Napa  County'')) \<and>
   \<not> same_up_to_suffix_case
       (add_county_suffix (normalize_county_name (Some ''A County County'')))
       (add_county_suffix (Some ''A County County''))"
  by code_simp

section \<open>Properties of the filters\<close>


lemma year_step_county_fields [simp]:
  "year_step h r (f\<lparr>counties := a, county := b\<rparr>) = year_step h r f"
  "year_step h r (f\<lparr>county := b\<rparr>) = year_step h r f"
  "year_step h r (f\<lparr>counties := a\<rparr>) = year_step h r f"
  by (simp_all add: year_step_def)

lemma license_step_county_fields [simp]:
  "license_step h r (f\<lparr>counties := a, county := b\<rparr>) = license_step h r f"
  "license_step h r (f\<lparr>county := b\<rparr>) = license_step h r f"
  "license_step h r (f\<lparr>counties := a\<rparr>) = license_step h r f"
  by (simp_all add: license_step_def)

lemma counties_to_filter_sentinel:
  "effective_sentinel f \<Longrightarrow> counties_to_filter f = None"
  by (auto simp: effective_sentinel_def counties_to_filter_def split: option.splits)

lemma counties_to_filter_unset:
  "counties_to_filter (f\<lparr>counties := None, county := None\<rparr>) = None"
  by (simp add: counties_to_filter_def truthy_def)

lemma counties_to_filter_precedence:
  "truthy (counties f) \<Longrightarrow> counties_to_filter (f\<lparr>county := c\<rparr>) = counties_to_filter f"
  by (simp add: counties_to_filter_def)

lemma dispensary_sentinel_noop:
  "effective_sentinel f \<Longrightarrow>
     apply_dispensary_filters rt h d f =
       apply_dispensary_filters rt h d (f\<lparr>counties := None, county := None\<rparr>)"
  by (simp add: apply_dispensary_filters_def counties_to_filter_sentinel counties_to_filter_unset
      cong: prod.case_cong sum.case_cong)

lemma sentiment_sentinel_noop:
  "effective_sentinel f \<Longrightarrow>
     apply_sentiment_filters rt h d f =
       apply_sentiment_filters rt h d (f\<lparr>counties := None, county := None\<rparr>)"
  by (simp add: apply_sentiment_filters_def counties_to_filter_sentinel counties_to_filter_unset
      cong: prod.case_cong sum.case_cong)

lemma density_legacy_sentinel_noop:
  "county f = Some ''All Counties'' \<or> county f = None \<Longrightarrow>
     apply_density_filters rt h d f =
       apply_density_filters rt h d (f\<lparr>counties := None, county := None\<rparr>)"
  by (auto simp: apply_density_filters_def legacy_county_step_def cong: prod.case_cong sum.case_cong)

lemma dispensary_precedence:
  "truthy (counties f) \<Longrightarrow>
     apply_dispensary_filters rt h d (f\<lparr>county := c\<rparr>) = apply_dispensary_filters rt h d f"
  by (simp add: apply_dispensary_filters_def counties_to_filter_precedence cong: prod.case_cong sum.case_cong)

lemma sentiment_precedence:
  "truthy (counties f) \<Longrightarrow>
     apply_sentiment_filters rt h d (f\<lparr>county := c\<rparr>) = apply_sentiment_filters rt h d f"
  by (simp add: apply_sentiment_filters_def counties_to_filter_precedence cong: prod.case_cong sum.case_cong)



lemma index_of_None_iff: "index_of c cs = None \<longleftrightarrow> c \<notin> set cs"
  by (induction cs) auto

lemma index_of_append_new: "c \<notin> set cs \<Longrightarrow> index_of c (cs @ [c]) = Some (length cs)"
  by (induction cs) auto

lemma remove_nth_snoc: "remove_nth (length xs) (xs @ [v]) = xs"
  by (simp add: remove_nth_def)

lemma subseq_select_mask: "subseq (map snd (filter fst (zip m xs))) xs"
proof (induction xs arbitrary: m)
  case Nil then show ?case by simp
next
  case (Cons x xs)
  show ?case
  proof (cases m)
    case Nil then show ?thesis by simp
  next
    case (Cons b bs)
    then show ?thesis using Cons.IH [of bs] by auto
  qed
qed

lemma temp_column_roundtrip:
  assumes c: "c \<notin> set (cols t)"
    and w: "list_all (\<lambda>r. length r = length (cols t)) (rows t)"
  shows "drop_column c (select_rows p (set_column c g t)) =
           t\<lparr>rows := filter (\<lambda>r. p (r @ [g r])) (rows t)\<rparr>"
proof -
  have i: "index_of c (cols t) = None" using c by (simp add: index_of_None_iff)
  have s: "set_column c g t = t\<lparr>cols := cols t @ [c], rows := map (\<lambda>r. r @ [g r]) (rows t)\<rparr>"
    by (simp add: set_column_def i)
  have m: "map (\<lambda>r. remove_nth (length (cols t)) (r @ [g r]))
             (filter (\<lambda>r. p (r @ [g r])) (rows t)) = filter (\<lambda>r. p (r @ [g r])) (rows t)"
  proof (intro map_idI)
    fix r assume "r \<in> set (filter (\<lambda>r. p (r @ [g r])) (rows t))"
    with w have "length r = length (cols t)" by (auto simp: list_all_iff)
    then show "remove_nth (length (cols t)) (r @ [g r]) = r"
      using remove_nth_snoc [of r "g r"] by simp
  qed
  show ?thesis
    unfolding s
    by (simp add: select_rows_def drop_column_def index_of_append_new [OF c] remove_nth_snoc
          filter_map o_def m)
qed

lemma year_step_frame:
  assumes "year_step h fd f = (Inr fd', h')" "n \<le> fd" "fd < length h"
  shows "n \<le> fd' \<and> fd' < length h' \<and> take n h' = take n h \<and>
         cols (h' ! fd') = cols (h ! fd) \<and> subseq (rows (h' ! fd')) (rows (h ! fd))"
  using assms
  by (auto simp: year_step_def alloc_def select_mask_def nth_append subseq_select_mask
      split: option.splits prod.splits if_splits sum.splits)

lemma year_step_frame_err:
  assumes "year_step h fd f = (Inl e, h')"
  shows "h' = h"
  using assms
  by (auto simp: year_step_def alloc_def split: option.splits prod.splits if_splits sum.splits)

lemma license_step_frame:
  assumes "license_step h fd f = (fd', h')" "n \<le> fd" "fd < length h"
  shows "n \<le> fd' \<and> fd' < length h' \<and> take n h' = take n h \<and>
         cols (h' ! fd') = cols (h ! fd) \<and> subseq (rows (h' ! fd')) (rows (h ! fd))"
  using assms
  by (auto simp: license_step_def alloc_def select_rows_def nth_append split: if_splits)

lemma county_step_frame:
  assumes "county_step rt h fd ctf = (fd', h')" "n \<le> fd" "fd < length h"
  shows "n \<le> fd' \<and> fd' < length h' \<and> take n h' = take n h"
  using assms
  by (auto simp: county_step_def alloc_def Let_def split: if_splits)

lemma county_step_content:
  assumes "county_step rt h fd ctf = (fd', h')" "fd < length h"
    "''_normalized_county'' \<notin> set (cols (h ! fd))" "rows_ok (h ! fd)"
  shows "cols (h' ! fd') = cols (h ! fd) \<and> subseq (rows (h' ! fd')) (rows (h ! fd))"
proof (cases "truthy ctf \<and> ''County'' \<in> set (cols (h ! fd))")
  case False
  with assms show ?thesis by (auto simp: county_step_def)
next
  case True
  with assms(1,2) have "h' ! fd' = drop_column ''_normalized_county''
      (select_rows (\<lambda>r. name_of_cell (cell_at (set_column ''_normalized_county''
                     (\<lambda>r. cell_of_name (normalize_county_cell rt (cell_at (h ! fd) ''County'' r)))
                     (h ! fd)) ''_normalized_county'' r)
                             \<in> set (map (\<lambda>c. normalize_county_name (Some c)) (the ctf)))
         (set_column ''_normalized_county''
                     (\<lambda>r. cell_of_name (normalize_county_cell rt (cell_at (h ! fd) ''County'' r)))
                     (h ! fd)))"
    by (auto simp: county_step_def alloc_def Let_def nth_append)
  then show ?thesis
    using assms(3,4) by (simp add: temp_column_roundtrip rows_ok_def)
qed

lemma legacy_county_step_frame:
  assumes "legacy_county_step rt h fd f = (fd', h')" "n \<le> fd" "fd < length h"
  shows "n \<le> fd' \<and> fd' < length h' \<and> take n h' = take n h"
  using assms
  by (auto simp: legacy_county_step_def alloc_def Let_def split: if_splits option.splits)

lemma legacy_county_step_content:
  assumes "legacy_county_step rt h fd f = (fd', h')" "fd < length h"
    "''_normalized_county'' \<notin> set (cols (h ! fd))" "rows_ok (h ! fd)"
  shows "cols (h' ! fd') = cols (h ! fd) \<and> subseq (rows (h' ! fd')) (rows (h ! fd))"
proof (cases "\<exists>c. county f = Some c \<and> c \<noteq> ''All Counties'' \<and> ''County'' \<in> set (cols (h ! fd))")
  case False
  with assms show ?thesis by (auto simp: legacy_county_step_def split: option.splits if_splits)
next
  case True
  then obtain c where c: "county f = Some c" "c \<noteq> ''All Counties''" "''County'' \<in> set (cols (h ! fd))"
    by blast
  define g where "g = (\<lambda>r. cell_of_name (normalize_county_cell rt (cell_at (h ! fd) ''County'' r)))"
  define p where "p = (\<lambda>r. case (name_of_cell (cell_at (set_column ''_normalized_county'' g (h ! fd))
                                   ''_normalized_county'' r),
                                 normalize_county_name (Some c)) of
                              (Some a, Some b) \<Rightarrow> a = b
                            | _ \<Rightarrow> False)"
  from assms(1,2) c have "h' ! fd' = drop_column ''_normalized_county''
      (select_rows p (set_column ''_normalized_county'' g (h ! fd)))"
    by (auto simp: legacy_county_step_def alloc_def Let_def nth_append g_def p_def)
  then show ?thesis
    using assms(3,4) by (simp add: temp_column_roundtrip rows_ok_def)
qed



lemma rows_ok_subseq:
  assumes "cols t' = cols t" "subseq (rows t') (rows t)" "rows_ok t"
  shows "rows_ok t'"
proof -
  from assms(2) have "set (rows t') \<subseteq> set (rows t)" by (auto dest: list_emb_set)
  with assms(1,3) show ?thesis by (auto simp: rows_ok_def list_all_iff)
qed

lemma apply_dispensary_filters_frame:
  assumes d: "d < length h" and r: "apply_dispensary_filters rt h d f = (res, h')"
  shows "take (length h) h' = h \<and> (\<forall>r. res = Inr r \<longrightarrow> length h \<le> r \<and> r < length h') \<and>
         (rows_ok (h ! d) \<longrightarrow> ''_normalized_county'' \<notin> set (cols (h ! d)) \<longrightarrow>
            (\<forall>r. res = Inr r \<longrightarrow> cols (h' ! r) = cols (h ! d) \<and> subseq (rows (h' ! r)) (rows (h ! d))))"
proof -
  let ?h0 = "h @ [h ! d]"
  have t0: "?h0 ! length h = h ! d" by simp
  obtain y h1 where ys: "year_step ?h0 (length h) f = (y, h1)" by force
  show ?thesis
  proof (cases y)
    case (Inl e)
    with ys have "h1 = ?h0" using year_step_frame_err by blast
    with r ys Inl have "res = Inl e" "h' = ?h0"
      by (simp_all add: apply_dispensary_filters_def alloc_def)
    then show ?thesis by simp
  next
    case (Inr fd1)
    with ys have "year_step ?h0 (length h) f = (Inr fd1, h1)" by simp
    from year_step_frame [OF this, of "length h"]
    have 1: "length h \<le> fd1" "fd1 < length h1" "take (length h) h1 = h"
      "cols (h1 ! fd1) = cols (h ! d)" "subseq (rows (h1 ! fd1)) (rows (h ! d))"
      by (simp_all add: t0)
    obtain fd2 h2 where ls: "license_step h1 fd1 f = (fd2, h2)" by force
    from license_step_frame [OF ls 1(1,2)] 1
    have 2: "length h \<le> fd2" "fd2 < length h2" "take (length h) h2 = h"
      "cols (h2 ! fd2) = cols (h ! d)" "subseq (rows (h2 ! fd2)) (rows (h ! d))"
      by (auto intro: subseq_order.trans)
    obtain fd3 h3 where cs: "county_step rt h2 fd2 (counties_to_filter f) = (fd3, h3)" by force
    from county_step_frame [OF cs 2(1,2)] 2
    have 3: "length h \<le> fd3" "fd3 < length h3" "take (length h) h3 = h" by auto
    have 4: "cols (h3 ! fd3) = cols (h ! d) \<and> subseq (rows (h3 ! fd3)) (rows (h ! d))"
      if "rows_ok (h ! d)" "''_normalized_county'' \<notin> set (cols (h ! d))"
    proof -
      have "rows_ok (h2 ! fd2)" using 2(4,5) that(1) by (rule rows_ok_subseq)
      with county_step_content [OF cs 2(2)] that(2) 2(4,5) show ?thesis
        by (auto intro: subseq_order.trans)
    qed
    from r ys Inr ls cs have "res = Inr fd3" "h' = h3"
      by (simp_all add: apply_dispensary_filters_def alloc_def)
    with 3 4 show ?thesis by simp
  qed
qed

lemma apply_sentiment_filters_frame:
  assumes d: "d < length h" and r: "apply_sentiment_filters rt h d f = (res, h')"
  shows "take (length h) h' = h \<and> (\<forall>r. res = Inr r \<longrightarrow> length h \<le> r \<and> r < length h') \<and>
         (rows_ok (h ! d) \<longrightarrow> ''_normalized_county'' \<notin> set (cols (h ! d)) \<longrightarrow>
            (\<forall>r. res = Inr r \<longrightarrow> cols (h' ! r) = cols (h ! d) \<and> subseq (rows (h' ! r)) (rows (h ! d))))"
proof -
  let ?h0 = "h @ [h ! d]"
  have t0: "?h0 ! length h = h ! d" by simp
  obtain y h1 where ys: "year_step ?h0 (length h) f = (y, h1)" by force
  show ?thesis
  proof (cases y)
    case (Inl e)
    with ys have "h1 = ?h0" using year_step_frame_err by blast
    with r ys Inl have "res = Inl e" "h' = ?h0"
      by (simp_all add: apply_sentiment_filters_def alloc_def)
    then show ?thesis by simp
  next
    case (Inr fd1)
    with ys have "year_step ?h0 (length h) f = (Inr fd1, h1)" by simp
    from year_step_frame [OF this, of "length h"]
    have 1: "length h \<le> fd1" "fd1 < length h1" "take (length h) h1 = h"
      "cols (h1 ! fd1) = cols (h ! d)" "subseq (rows (h1 ! fd1)) (rows (h ! d))"
      by (simp_all add: t0)
    define fd2 h2 where "fd2 = fd1" and "h2 = h1"
    with 1
    have 2: "length h \<le> fd2" "fd2 < length h2" "take (length h) h2 = h"
      "cols (h2 ! fd2) = cols (h ! d)" "subseq (rows (h2 ! fd2)) (rows (h ! d))"
      by simp_all
    obtain fd3 h3 where cs: "county_step rt h2 fd2 (counties_to_filter f) = (fd3, h3)" by force
    from county_step_frame [OF cs 2(1,2)] 2
    have 3: "length h \<le> fd3" "fd3 < length h3" "take (length h) h3 = h" by auto
    have 4: "cols (h3 ! fd3) = cols (h ! d) \<and> subseq (rows (h3 ! fd3)) (rows (h ! d))"
      if "rows_ok (h ! d)" "''_normalized_county'' \<notin> set (cols (h ! d))"
    proof -
      have "rows_ok (h2 ! fd2)" using 2(4,5) that(1) by (rule rows_ok_subseq)
      with county_step_content [OF cs 2(2)] that(2) 2(4,5) show ?thesis
        by (auto intro: subseq_order.trans)
    qed
    from r ys Inr cs have "res = Inr fd3" "h' = h3"
      by (simp_all add: apply_sentiment_filters_def alloc_def fd2_def h2_def)
    with 3 4 show ?thesis by simp
  qed
qed

lemma apply_density_filters_frame:
  assumes d: "d < length h" and r: "apply_density_filters rt h d f = (res, h')"
  shows "take (length h) h' = h \<and> (\<forall>r. res = Inr r \<longrightarrow> length h \<le> r \<and> r < length h') \<and>
         (rows_ok (h ! d) \<longrightarrow> ''_normalized_county'' \<notin> set (cols (h ! d)) \<longrightarrow>
            (\<forall>r. res = Inr r \<longrightarrow> cols (h' ! r) = cols (h ! d) \<and> subseq (rows (h' ! r)) (rows (h ! d))))"
proof -
  let ?h0 = "h @ [h ! d]"
  have t0: "?h0 ! length h = h ! d" by simp
  obtain y h1 where ys: "year_step ?h0 (length h) f = (y, h1)" by force
  show ?thesis
  proof (cases y)
    case (Inl e)
    with ys have "h1 = ?h0" using year_step_frame_err by blast
    with r ys Inl have "res = Inl e" "h' = ?h0"
      by (simp_all add: apply_density_filters_def alloc_def)
    then show ?thesis by simp
  next
    case (Inr fd1)
    with ys have "year_step ?h0 (length h) f = (Inr fd1, h1)" by simp
    from year_step_frame [OF this, of "length h"]
    have 1: "length h \<le> fd1" "fd1 < length h1" "take (length h) h1 = h"
      "cols (h1 ! fd1) = cols (h ! d)" "subseq (rows (h1 ! fd1)) (rows (h ! d))"
      by (simp_all add: t0)
    define fd2 h2 where "fd2 = fd1" and "h2 = h1"
    with 1
    have 2: "length h \<le> fd2" "fd2 < length h2" "take (length h) h2 = h"
      "cols (h2 ! fd2) = cols (h ! d)" "subseq (rows (h2 ! fd2)) (rows (h ! d))"
      by simp_all
    obtain fd3 h3 where cs: "legacy_county_step rt h2 fd2 f = (fd3, h3)" by force
    from legacy_county_step_frame [OF cs 2(1,2)] 2
    have 3: "length h \<le> fd3" "fd3 < length h3" "take (length h) h3 = h" by auto
    have 4: "cols (h3 ! fd3) = cols (h ! d) \<and> subseq (rows (h3 ! fd3)) (rows (h ! d))"
      if "rows_ok (h ! d)" "''_normalized_county'' \<notin> set (cols (h ! d))"
    proof -
      have "rows_ok (h2 ! fd2)" using 2(4,5) that(1) by (rule rows_ok_subseq)
      with legacy_county_step_content [OF cs 2(2)] that(2) 2(4,5) show ?thesis
        by (auto intro: subseq_order.trans)
    qed
    from r ys Inr cs have "res = Inr fd3" "h' = h3"
      by (simp_all add: apply_density_filters_def alloc_def fd2_def h2_def)
    with 3 4 show ?thesis by simp
  qed
qed



text \<open>
  C1. With both fields present and a non-empty list, \<^verbatim>\<open>apply_dispensary_filters\<close> and
  \<^verbatim>\<open>apply_sentiment_filters\<close> use the list (\<open>dispensary_precedence\<close>,
  \<open>sentiment_precedence\<close>). \<^verbatim>\<open>apply_density_filters\<close> does not read the list: with
  \<^verbatim>\<open>counties = ["Los Angeles County"]\<close> and \<^verbatim>\<open>county = "San Diego County"\<close> it keeps
  the San Diego row, where \<^verbatim>\<open>apply_dispensary_filters\<close> keeps the Los Angeles row.
\<close>

theorem density_filter_ignores_counties_list:
  "result_table (apply_density_filters rt_example [density_example] 0
      \<lparr>years = None, license_types = None,
       counties = Some [''Los Angeles County''], county = Some ''San Diego County''\<rparr>) =
     Inr \<lparr>cols = [''County'', ''Year'', ''Dispensary_PerCapita''],
          rows = [[Str ''San Diego County'', Num 2021, Num 4]]\<rparr> \<and>
   result_table (apply_dispensary_filters rt_example [density_example] 0
      \<lparr>years = None, license_types = None,
       counties = Some [''Los Angeles County''], county = Some ''San Diego County''\<rparr>) =
     Inr \<lparr>cols = [''County'', ''Year'', ''Dispensary_PerCapita''],
          rows = [[Str ''Los Angeles County'', Num 2020, Num 5]]\<rparr>"
  by code_simp

text \<open>
  C4 (amended). \<^verbatim>\<open>has_active_filters\<close> returns False exactly when every dimension is
  unrestricted as the code judges it: the year range is absent or is (2018, 2024); the
  non-empty county list contains the sentinel, or the list is absent or empty and the
  scalar is absent or is the sentinel; the license types are absent, empty, or at least
  three. In every other case it returns True.
\<close>

theorem has_active_filters_iff_restricted:
  "has_active_filters f =
     (\<not> (year_unrestricted f \<and> county_unrestricted f \<and> license_unrestricted f))"
  by (auto simp: has_active_filters_def year_unrestricted_def county_unrestricted_def
        license_unrestricted_def truthy_def split: option.splits)

theorem has_active_filters_iff_restricted_witness:
  "has_active_filters \<lparr>years = Some (2018, 2024), license_types = Some [''a'', ''b'', ''c''],
      counties = Some [''All Counties''], county = None\<rparr> = False \<and>
   has_active_filters \<lparr>years = Some (2020, 2024), license_types = Some [''a'', ''b'', ''c''],
      counties = Some [''All Counties''], county = None\<rparr> = True"
proof -
  have 1: "year_unrestricted \<lparr>years = Some (2018, 2024), license_types = Some [''a'', ''b'', ''c''],
      counties = Some [''All Counties''], county = None\<rparr>" by code_simp
  have 2: "county_unrestricted \<lparr>years = Some (2018, 2024), license_types = Some [''a'', ''b'', ''c''],
      counties = Some [''All Counties''], county = None\<rparr>" by code_simp
  have 3: "license_unrestricted \<lparr>years = Some (2018, 2024), license_types = Some [''a'', ''b'', ''c''],
      counties = Some [''All Counties''], county = None\<rparr>" by code_simp
  have 4: "\<not> year_unrestricted \<lparr>years = Some (2020, 2024), license_types = Some [''a'', ''b'', ''c''],
      counties = Some [''All Counties''], county = None\<rparr>" by code_simp
  show ?thesis
    using has_active_filters_iff_restricted [of "\<lparr>years = Some (2018, 2024),
        license_types = Some [''a'', ''b'', ''c''], counties = Some [''All Counties''], county = None\<rparr>"]
      has_active_filters_iff_restricted [of "\<lparr>years = Some (2020, 2024),
        license_types = Some [''a'', ''b'', ''c''], counties = Some [''All Counties''], county = None\<rparr>"]
      1 2 3 4
    by blast
qed

text \<open>
  C4 as stated fails: with the year range and the county selection at their defaults and
  an empty license-type list, no dimension is restricted for the code, which returns
  False, although the license types are not the full set of three; the same holds when
  the dictionary is empty.
\<close>

theorem has_active_filters_false_off_declared_defaults:
  "has_active_filters \<lparr>years = Some (2018, 2024), license_types = Some [],
      counties = Some [''All Counties''], county = None\<rparr> = False \<and>
   \<not> at_declared_defaults \<lparr>years = Some (2018, 2024), license_types = Some [],
      counties = Some [''All Counties''], county = None\<rparr> \<and>
   has_active_filters \<lparr>years = None, license_types = None, counties = None, county = None\<rparr> = False \<and>
   \<not> at_declared_defaults \<lparr>years = None, license_types = None, counties = None, county = None\<rparr>"
  by code_simp

text \<open>
  C8. When the county selection in effect is the sentinel, \<^verbatim>\<open>apply_dispensary_filters\<close>
  and \<^verbatim>\<open>apply_sentiment_filters\<close> return what they return without any county field
  (\<open>dispensary_sentinel_noop\<close>, \<open>sentiment_sentinel_noop\<close>), and so does
  \<^verbatim>\<open>apply_density_filters\<close> when the scalar is the sentinel or absent
  (\<open>density_legacy_sentinel_noop\<close>). With \<^verbatim>\<open>counties = ["All Counties"]\<close> and
  \<^verbatim>\<open>county = "Los Angeles County"\<close> the selection in effect is the sentinel, and
  \<^verbatim>\<open>apply_density_filters\<close> still drops the San Diego row.
\<close>

theorem density_filter_restricts_under_sentinel_list:
  "effective_sentinel \<lparr>years = None, license_types = None,
       counties = Some [''All Counties''], county = Some ''Los Angeles County''\<rparr> \<and>
   result_table (apply_density_filters rt_example [density_example] 0
      \<lparr>years = None, license_types = None,
       counties = Some [''All Counties''], county = Some ''Los Angeles County''\<rparr>) =
     Inr \<lparr>cols = [''County'', ''Year'', ''Dispensary_PerCapita''],
          rows = [[Str ''Los Angeles County'', Num 2020, Num 5]]\<rparr> \<and>
   result_table (apply_dispensary_filters rt_example [density_example] 0
      \<lparr>years = None, license_types = None,
       counties = Some [''All Counties''], county = Some ''Los Angeles County''\<rparr>) =
     Inr density_example"
  by code_simp

text \<open>
  C10. Called on a stored table, each filter applier leaves every object of the store it
  was given as it was, and returns a reference to an object made during the call. When the
  input has one cell per column in every row and no column named
  \<^verbatim>\<open>_normalized_county\<close>, the returned table has the columns of the input and its rows
  are rows of the input, in their order: the temporary column is gone. The validation
  functions leave the store as it was.
\<close>

theorem appliers_and_validators_leave_input_unchanged:
  assumes "d < length h"
  shows "(\<forall>ap \<in> {apply_dispensary_filters, apply_sentiment_filters, apply_density_filters}.
            take (length h) (snd (ap rt h d f)) = h \<and>
            (\<forall>r. fst (ap rt h d f) = Inr r \<longrightarrow>
               length h \<le> r \<and> r < length (snd (ap rt h d f)) \<and>
               (rows_ok (h ! d) \<and> ''_normalized_county'' \<notin> set (cols (h ! d)) \<longrightarrow>
                  cols (snd (ap rt h d f) ! r) = cols (h ! d) \<and>
                  subseq (rows (snd (ap rt h d f) ! r)) (rows (h ! d))))) \<and>
         snd (validate_positive_numeric_at rt h d c allow_zero dn) = h \<and>
         snd (validate_range_at rt h d c lo hi dn) = h"
proof -
  have 1: "apply_dispensary_filters rt h d f =
             (fst (apply_dispensary_filters rt h d f), snd (apply_dispensary_filters rt h d f))"
    by simp
  have 2: "apply_sentiment_filters rt h d f =
             (fst (apply_sentiment_filters rt h d f), snd (apply_sentiment_filters rt h d f))"
    by simp
  have 3: "apply_density_filters rt h d f =
             (fst (apply_density_filters rt h d f), snd (apply_density_filters rt h d f))"
    by simp
  show ?thesis
    using apply_dispensary_filters_frame [OF assms 1] apply_sentiment_filters_frame [OF assms 2]
      apply_density_filters_frame [OF assms 3]
    by (simp add: validate_positive_numeric_at_def validate_range_at_def)
qed

theorem appliers_and_validators_leave_input_unchanged_witness:
  "(0::nat) < length [density_example] \<and>
   take 1 (snd (apply_dispensary_filters rt_example [density_example] 0
      \<lparr>years = Some (2020, 2020), license_types = None,
       counties = Some [''Los Angeles''], county = None\<rparr>)) = [density_example] \<and>
   snd (validate_range_at rt_example [density_example] 0 ''Year'' (Some 2000) None None) =
     [density_example]"
proof -
  have 0: "(0::nat) < length [density_example]" by simp
  show ?thesis
    using appliers_and_validators_leave_input_unchanged [OF 0, of rt_example
        "\<lparr>years = Some (2020, 2020), license_types = None,
          counties = Some [''Los Angeles''], county = None\<rparr>" "''Year''" True None "Some 2000" None]
    by simp
qed

section \<open>Properties of the validation functions\<close>


lemma cell_at_rows_update [simp]: "cell_at (t\<lparr>rows := x\<rparr>) c = cell_at t c"
  by (rule ext) (simp add: cell_at_def)

lemma filter_filter_subsumed: "(\<And>x. P x \<Longrightarrow> Q x) \<Longrightarrow> filter P (filter Q xs) = filter P xs"
  by (induction xs) auto

lemma validate_positive_numeric_coercible:
  "validate_positive_numeric rt (coercible_rows rt c t) c az dn = validate_positive_numeric rt t c az dn"
proof -
  let ?m = "\<lambda>r. case to_numeric rt (cell_at t c r) of None \<Rightarrow> False
                  | Some x \<Rightarrow> if az then x < 0 else x \<le> 0"
  have "filter ?m (filter (\<lambda>r. to_numeric rt (cell_at t c r) \<noteq> None) (rows t)) = filter ?m (rows t)"
    by (rule filter_filter_subsumed) (auto split: option.splits)
  then show ?thesis
    by (simp add: validate_positive_numeric_def coercible_rows_def Let_def del: filter_filter)
qed

lemma validate_range_coercible:
  "validate_range rt (coercible_rows rt c t) c lo hi dn = validate_range rt t c lo hi dn"
proof -
  let ?m = "\<lambda>r. case to_numeric rt (cell_at t c r) of None \<Rightarrow> False
                  | Some x \<Rightarrow> (case lo of None \<Rightarrow> False | Some l \<Rightarrow> x < l) \<or>
                              (case hi of None \<Rightarrow> False | Some u \<Rightarrow> x > u)"
  have "filter ?m (filter (\<lambda>r. to_numeric rt (cell_at t c r) \<noteq> None) (rows t)) = filter ?m (rows t)"
    by (rule filter_filter_subsumed) (auto split: option.splits)
  then show ?thesis
    by (simp add: validate_range_def coercible_rows_def Let_def del: filter_filter)
qed

lemma validate_positive_numeric_values:
  "v \<in> set (invalid_values (validate_positive_numeric rt t c az dn)) \<Longrightarrow> to_numeric rt v \<noteq> None"
  by (auto simp: validate_positive_numeric_def Let_def dest!: in_set_takeD split: if_splits option.splits)

lemma validate_range_values:
  "v \<in> set (invalid_values (validate_range rt t c lo hi dn)) \<Longrightarrow> to_numeric rt v \<noteq> None"
  by (auto simp: validate_range_def Let_def dest!: in_set_takeD split: if_splits option.splits)

lemma validate_uncoercible_valid:
  assumes "c \<in> set (cols t)" "\<forall>r \<in> set (rows t). to_numeric rt (cell_at t c r) = None"
  shows "is_valid (validate_positive_numeric rt t c az dn) \<and>
         invalid_count (validate_positive_numeric rt t c az dn) = 0 \<and>
         is_valid (validate_range rt t c lo hi dn) \<and>
         invalid_count (validate_range rt t c lo hi dn) = 0"
  using assms
  by (auto simp: validate_positive_numeric_def validate_range_def Let_def filter_empty_conv)

lemma sublist_not_found: "sublist ''not found'' (not_found_text n)"
proof -
  have "not_found_text n = (''Column '' @ [CHR 0x27] @ n @ [CHR 0x27] @ '' '') @ ''not found'' @ '' in dataset''"
    by (simp add: not_found_text_def)
  then show ?thesis unfolding sublist_def by blast
qed

lemma validate_missing_column:
  assumes "c \<notin> set (cols t)"
  shows "validate_positive_numeric rt t c az dn =
           \<lparr>is_valid = False, column = c, message = Column_not_found (display_or dn c),
            invalid_count = 0, invalid_values = []\<rparr>"
    and "validate_range rt t c lo hi dn =
           \<lparr>is_valid = False, column = c, message = Column_not_found (display_or dn c),
            invalid_count = 0, invalid_values = []\<rparr>"
  using assms by (simp_all add: validate_positive_numeric_def validate_range_def)


text \<open>
  C6. In \<^verbatim>\<open>validate_positive_numeric\<close>, \<^verbatim>\<open>validate_range\<close> and the three rules that call
  it, the rows whose value fails numeric coercion count for nothing: the result on a table
  is the result on the table without these rows. No value reported in
  \<^verbatim>\<open>invalid_values\<close> fails coercion, and a column in which every value fails coercion
  is valid with \<^verbatim>\<open>invalid_count\<close> 0. The functions have a result on every table.
\<close>

theorem coercion_failures_excluded_from_tallies:
  "validate_positive_numeric rt (coercible_rows rt c t) c allow_zero dn =
     validate_positive_numeric rt t c allow_zero dn \<and>
   validate_range rt (coercible_rows rt c t) c lo hi dn = validate_range rt t c lo hi dn \<and>
   validate_year_column rt (coercible_rows rt c t) c min_year max_year =
     validate_year_column rt t c min_year max_year \<and>
   validate_sentiment_score rt (coercible_rows rt c t) c min_score max_score =
     validate_sentiment_score rt t c min_score max_score \<and>
   validate_percentage rt (coercible_rows rt c t) c dn = validate_percentage rt t c dn \<and>
   (\<forall>v \<in> set (invalid_values (validate_positive_numeric rt t c allow_zero dn)).
      to_numeric rt v \<noteq> None) \<and>
   (\<forall>v \<in> set (invalid_values (validate_range rt t c lo hi dn)). to_numeric rt v \<noteq> None) \<and>
   (c \<in> set (cols t) \<and> (\<forall>r \<in> set (rows t). to_numeric rt (cell_at t c r) = None) \<longrightarrow>
      is_valid (validate_positive_numeric rt t c allow_zero dn) \<and>
      invalid_count (validate_positive_numeric rt t c allow_zero dn) = 0 \<and>
      is_valid (validate_range rt t c lo hi dn) \<and>
      invalid_count (validate_range rt t c lo hi dn) = 0)"
  using validate_positive_numeric_coercible validate_range_coercible
    validate_positive_numeric_values validate_range_values validate_uncoercible_valid
  by (simp add: validate_year_column_def validate_sentiment_score_def validate_percentage_def)

theorem coercion_failures_excluded_from_tallies_witness:
  "validate_positive_numeric rt_example population_example ''Population'' True None =
     \<lparr>is_valid = False, column = ''Population'',
      message = Not_threshold 1 ''Population'' True,
      invalid_count = 1, invalid_values = [Num (- 5)]\<rparr> \<and>
   to_numeric rt_example (Num (- 5)) \<noteq> None \<and>
   ''Population'' \<in> set (cols uncoercible_example) \<and>
   is_valid (validate_range rt_example uncoercible_example ''Population'' (Some 0) None None) \<and>
   invalid_count (validate_range rt_example uncoercible_example ''Population'' (Some 0) None None) = 0"
proof -
  have 1: "validate_positive_numeric rt_example population_example ''Population'' True None =
     \<lparr>is_valid = False, column = ''Population'',
      message = Not_threshold 1 ''Population'' True,
      invalid_count = 1, invalid_values = [Num (- 5)]\<rparr>" by code_simp
  have 2: "''Population'' \<in> set (cols uncoercible_example)" by code_simp
  have 3: "\<forall>r \<in> set (rows uncoercible_example).
             to_numeric rt_example (cell_at uncoercible_example ''Population'' r) = None"
    by code_simp
  have 4: "Num (- 5) \<in> set (invalid_values
             (validate_positive_numeric rt_example population_example ''Population'' True None))"
    by (simp add: 1)
  show ?thesis
    using coercion_failures_excluded_from_tallies [of rt_example "''Population''"
        population_example True None None None 0 None 0 0]
      coercion_failures_excluded_from_tallies [of rt_example "''Population''"
        uncoercible_example True None "Some 0" None 0 None 0 0]
      1 2 3 4
    by blast
qed

text \<open>
  C7. For a column name that is not a column of the table, \<^verbatim>\<open>validate_positive_numeric\<close>
  and \<^verbatim>\<open>validate_range\<close> return the result with \<^verbatim>\<open>is_valid=False\<close>,
  \<^verbatim>\<open>invalid_count=0\<close>, no invalid values and the column-not-found message, whose text
  contains \<^verbatim>\<open>not found\<close>; the result is the same whatever the rows of the table are.
\<close>

theorem missing_column_reported_not_found:
  assumes "c \<notin> set (cols t)"
  shows "validate_positive_numeric rt (t\<lparr>rows := rs\<rparr>) c allow_zero dn =
           \<lparr>is_valid = False, column = c, message = Column_not_found (display_or dn c),
            invalid_count = 0, invalid_values = []\<rparr> \<and>
         validate_range rt (t\<lparr>rows := rs\<rparr>) c lo hi dn =
           \<lparr>is_valid = False, column = c, message = Column_not_found (display_or dn c),
            invalid_count = 0, invalid_values = []\<rparr> \<and>
         sublist ''not found'' (not_found_text (display_or dn c))"
  using assms validate_missing_column [of c "t\<lparr>rows := rs\<rparr>"] sublist_not_found
  by simp

theorem missing_column_reported_not_found_witness:
  "''Population'' \<notin> set (cols density_example) \<and>
   validate_positive_numeric rt_example density_example ''Population'' False None =
     \<lparr>is_valid = False, column = ''Population'', message = Column_not_found ''Population'',
      invalid_count = 0, invalid_values = []\<rparr> \<and>
   validate_range rt_example density_example ''Population'' (Some 0) (Some 100) None =
     \<lparr>is_valid = False, column = ''Population'', message = Column_not_found ''Population'',
      invalid_count = 0, invalid_values = []\<rparr>"
proof -
  have 1: "''Population'' \<notin> set (cols density_example)" by code_simp
  have 2: "density_example\<lparr>rows := rows density_example\<rparr> = density_example" by simp
  have 3: "display_or None ''Population'' = ''Population''" by (simp add: display_or_def)
  show ?thesis
    using missing_column_reported_not_found [OF 1, of rt_example "rows density_example"
        False None "Some 0" "Some 100"] 1
    by (simp add: 2 3)
qed

section \<open>Properties of the cached calculations\<close>





lemma numbers_total:
  "list_all (\<lambda>c. case c of Str _ \<Rightarrow> False | _ \<Rightarrow> True) cs \<Longrightarrow> \<exists>xs. numbers cs = Inr xs"
  by (induction cs rule: numbers.induct) auto




lemma cell_at_select_rows [simp]: "cell_at (select_rows p t) c = cell_at t c"
  by (rule ext) (simp add: cell_at_def select_rows_def)

lemma region_average_total:
  assumes "''County'' \<in> set (cols t)" "''Dispensary_PerCapita'' \<in> set (cols t)"
    "numeric_column ''Dispensary_PerCapita'' t"
  shows "\<exists>a. region_average t cs = Inr a \<and>
             ((\<forall>r \<in> set (rows t). \<not> region_matches t cs r) \<longrightarrow> a = 0)"
proof -
  let ?p = "\<lambda>r. cell_at t ''County'' r \<in>
              Str ` set (map (\<lambda>c. if \<not> endswith c '' County'' then c @ '' County'' else c) cs)"
  let ?vals = "map (cell_at t ''Dispensary_PerCapita'') (filter ?p (rows t))"
  from assms(3) have "list_all (\<lambda>c. case c of Str _ \<Rightarrow> False | _ \<Rightarrow> True) ?vals"
    by (simp add: numeric_column_def list_all_iff)
  then obtain xs where xs: "numbers ?vals = Inr xs" using numbers_total by blast
  have empty: "xs = []" if "\<forall>r \<in> set (rows t). \<not> region_matches t cs r"
  proof -
    from that have "filter ?p (rows t) = []" by (auto simp: region_matches_def filter_empty_conv)
    with xs show ?thesis by simp
  qed
  show ?thesis
    using assms(1,2) xs empty
    by (auto simp: region_average_def Let_def select_rows_def mean_def split: option.splits)
qed

lemma calculate_regional_density_rows:
  assumes "''County'' \<in> set (cols t)" "''Dispensary_PerCapita'' \<in> set (cols t)"
    "numeric_column ''Dispensary_PerCapita'' t"
  shows "\<exists>out. calculate_regional_density t m = Inr out \<and> map fst out = map fst m \<and>
           list_all2 (\<lambda>e p. fst p = fst e \<and>
                        ((\<forall>r \<in> set (rows t). \<not> region_matches t (snd e) r) \<longrightarrow> snd p = 0)) m out"
proof (induction m)
  case Nil then show ?case by simp
next
  case (Cons e m)
  obtain region cs where e: "e = (region, cs)" by (cases e)
  from region_average_total [OF assms, of cs]
  obtain a where a: "region_average t cs = Inr a"
    "(\<forall>r \<in> set (rows t). \<not> region_matches t cs r) \<longrightarrow> a = 0" by blast
  from Cons.IH obtain out where out: "calculate_regional_density t m = Inr out"
    "map fst out = map fst m"
    "list_all2 (\<lambda>e p. fst p = fst e \<and>
        ((\<forall>r \<in> set (rows t). \<not> region_matches t (snd e) r) \<longrightarrow> snd p = 0)) m out" by blast
  show ?case using e a out by simp
qed




text \<open>
  C9. For a density table with the columns \<^verbatim>\<open>County\<close> and
  \<^verbatim>\<open>Dispensary_PerCapita\<close>, the latter numeric, \<^verbatim>\<open>calculate_regional_density\<close> returns
  one row for each region of the mapping, in the order of the mapping, and the
  \<^verbatim>\<open>Average_Density\<close> of a region whose member counties match no row of the table is 0.
\<close>

theorem regional_density_row_per_region:
  assumes "''County'' \<in> set (cols t)" "''Dispensary_PerCapita'' \<in> set (cols t)"
    "numeric_column ''Dispensary_PerCapita'' t"
  shows "\<exists>out. calculate_regional_density t m = Inr out \<and> map fst out = map fst m \<and>
           (\<forall>i < length m. (\<forall>r \<in> set (rows t). \<not> region_matches t (snd (m ! i)) r) \<longrightarrow>
              snd (out ! i) = 0)"
proof -
  from calculate_regional_density_rows [OF assms, of m]
  obtain out where out: "calculate_regional_density t m = Inr out" "map fst out = map fst m"
    "list_all2 (\<lambda>e p. fst p = fst e \<and>
        ((\<forall>r \<in> set (rows t). \<not> region_matches t (snd e) r) \<longrightarrow> snd p = 0)) m out" by blast
  have "snd (out ! i) = 0"
    if "i < length m" "\<forall>r \<in> set (rows t). \<not> region_matches t (snd (m ! i)) r" for i
    using list_all2_nthD [OF out(3) that(1)] that(2) by simp
  with out(1,2) show ?thesis by blast
qed

theorem regional_density_row_per_region_witness:
  "calculate_regional_density density_example
     [(''South'', [''Los Angeles'', ''San Diego County'']), (''North'', [''Humboldt''])] =
     Inr [(''South'', 9 / 2), (''North'', 0)] \<and>
   list_all (\<lambda>r. \<not> region_matches density_example [''Humboldt''] r) (rows density_example)"
proof -
  have 1: "''County'' \<in> set (cols density_example)" by code_simp
  have 2: "''Dispensary_PerCapita'' \<in> set (cols density_example)" by code_simp
  have 3: "numeric_column ''Dispensary_PerCapita'' density_example" by code_simp
  have 4: "\<forall>r \<in> set (rows density_example). \<not> region_matches density_example [''Humboldt''] r"
    by code_simp
  have 5: "calculate_regional_density density_example
     [(''South'', [''Los Angeles'', ''San Diego County'']), (''North'', [''Humboldt''])] =
     Inr [(''South'', 9 / 2), (''North'', 0)]" by code_simp
  from regional_density_row_per_region [OF 1 2 3,
      of "[(''South'', [''Los Angeles'', ''San Diego County'']), (''North'', [''Humboldt''])]"]
  obtain out where "calculate_regional_density density_example
     [(''South'', [''Los Angeles'', ''San Diego County'']), (''North'', [''Humboldt''])] = Inr out"
    "map fst out = [''South'', ''North'']" by auto
  with 4 5 show ?thesis by (simp add: list_all_iff)
qed

end
